theory Spec2Isabelle
  imports Main "HOL-Library.Multiset"
begin

section \<open>RBAC manifest generation (package rbac)\<close>

text \<open>
  The package generates two Kubernetes manifests, a ClusterRole and a ClusterRoleBinding,
  from the permission rules that \<open>ParseDir\<close> finds in a source tree. The embedding follows
  the Go source function by function: \<open>Validate\<close>, \<open>Generate\<close>,
  \<open>getClusterRoleManifest\<close> and \<open>getClusterRoleBindingManifest\<close>.
\<close>

subsection \<open>Data\<close>

type_synonym bytes = "char list"

text \<open>A Go \<open>error\<close> value, observed through its message (\<open>err.Error()\<close>).\<close>

datatype error = Error (Error_msg: string)

text \<open>
  Modelled from the spec: the type \<open>PolicyRule\<close> of \<open>k8s.io/api/rbac/v1\<close> is declared
  outside the source files; the spec's PermissionRule names its five fields. Go slices
  are lists.
\<close>

record PolicyRule =
  Verbs :: "string list"
  APIGroups :: "string list"
  Resources :: "string list"
  ResourceNames :: "string list"
  NonResourceURLs :: "string list"

text \<open>
  The Kubernetes object types are declared in \<open>k8s.io/api/rbac/v1\<close> and
  \<open>k8s.io/apimachinery/pkg/apis/meta/v1\<close>, outside the source files. The records have
  the fields that the struct literals of the source set; every other field of these types
  keeps its zero value and is left out. A field is named after its type and its Go name.
\<close>

record TypeMeta =
  TypeMeta_Kind :: string
  TypeMeta_APIVersion :: string

record ObjectMeta =
  ObjectMeta_Name :: string
  ObjectMeta_Labels :: "string \<rightharpoonup> string"

record Subject =
  Subject_Name :: string
  Subject_Namespace :: string
  Subject_Kind :: string

record RoleRef =
  RoleRef_Name :: string
  RoleRef_Kind :: string
  RoleRef_APIGroup :: string

record ClusterRole =
  ClusterRole_TypeMeta :: TypeMeta
  ClusterRole_ObjectMeta :: ObjectMeta
  Rules :: "PolicyRule list"

record ClusterRoleBinding =
  ClusterRoleBinding_TypeMeta :: TypeMeta
  ClusterRoleBinding_ObjectMeta :: ObjectMeta
  Subjects :: "Subject list"
  ClusterRoleBinding_RoleRef :: RoleRef

text \<open>\<open>ManifestOptions\<close>: the options for generating the RBAC manifests.\<close>

record ManifestOptions =
  InputDir :: string
  OutputDir :: string
  Name :: string
  Labels :: "string \<rightharpoonup> string"

text \<open>The argument of \<open>yaml.Marshal\<close> (an \<open>interface{}\<close> in Go): the two objects it is given.\<close>

datatype manifest_object = RoleObject ClusterRole | RoleBindingObject ClusterRoleBinding

subsection \<open>The outside world\<close>

text \<open>
  \<open>Generate\<close> calls five functions that are not defined in the source files: the library
  functions \<open>os.Stat\<close>, \<open>yaml.Marshal\<close>, \<open>filepath.Join\<close> and \<open>ioutil.WriteFile\<close>, and
  the package's own \<open>ParseDir\<close>, the scan of the input directory for annotated rules.
  Their outcomes are parameters of the model. An \<open>error option\<close> is Go's \<open>error\<close> result
  (\<open>None\<close> is \<open>nil\<close>); \<open>error + 'a\<close> is a result with an error (\<open>Inl\<close>) or a value.
\<close>

record world =
  os_Stat :: "string \<Rightarrow> error option"
  ParseDir :: "string \<Rightarrow> error + PolicyRule list"
  yaml_Marshal :: "manifest_object \<Rightarrow> error + bytes"
  filepath_Join :: "string \<Rightarrow> string \<Rightarrow> string"
  ioutil_WriteFile :: "string \<Rightarrow> bytes \<Rightarrow> nat \<Rightarrow> error option"

text \<open>
  The calls that touch the file system are recorded, in order: a run returns its result
  together with the events it caused. \<open>Stat\<close> is a call of \<open>os.Stat\<close>, \<open>Scan\<close> a call of
  \<open>ParseDir\<close>, and \<open>WriteFile\<close> a call of \<open>ioutil.WriteFile\<close> with its path, data and file
  mode, whether or not the call succeeds.
\<close>

datatype event =
  Stat string
| Scan string
| WriteFile string bytes nat

primrec files_written :: "event list \<Rightarrow> (string \<times> bytes) list" where
  "files_written [] = []"
| "files_written (ev # evs) =
     (case ev of WriteFile path data perm \<Rightarrow> (path, data) # files_written evs
      | _ \<Rightarrow> files_written evs)"

primrec scans :: "event list \<Rightarrow> string list" where
  "scans [] = []"
| "scans (ev # evs) = (case ev of Scan dir \<Rightarrow> dir # scans evs | _ \<Rightarrow> scans evs)"

subsection \<open>Validate\<close>

definition Validate :: "world \<Rightarrow> ManifestOptions \<Rightarrow> error option \<times> event list" where
  "Validate w opts =
     (case os_Stat w (InputDir opts) of
        Some err \<Rightarrow>
          (Some (Error (''invalid input directory '' @ [CHR 0x27] @ InputDir opts @ [CHR 0x27]
                        @ '' '' @ Error_msg err)),
           [Stat (InputDir opts)])
      | None \<Rightarrow>
          (case os_Stat w (OutputDir opts) of
             Some err \<Rightarrow>
               (Some (Error (''invalid output directory '' @ [CHR 0x27] @ OutputDir opts
                             @ [CHR 0x27] @ '' '' @ Error_msg err)),
                [Stat (InputDir opts), Stat (OutputDir opts)])
           | None \<Rightarrow> (None, [Stat (InputDir opts), Stat (OutputDir opts)])))"

subsection \<open>The two manifests\<close>

text \<open>The struct literal \<open>role\<close> of \<open>getClusterRoleManifest\<close>.\<close>

definition role :: "PolicyRule list \<Rightarrow> ManifestOptions \<Rightarrow> ClusterRole" where
  "role rules opts =
     \<lparr> ClusterRole_TypeMeta =
         \<lparr> TypeMeta_Kind = ''ClusterRole'',
           TypeMeta_APIVersion = ''rbac.authorization.k8s.io/v1'' \<rparr>,
       ClusterRole_ObjectMeta =
         \<lparr> ObjectMeta_Name = Name opts @ ''-role'',
           ObjectMeta_Labels = Labels opts \<rparr>,
       Rules = rules \<rparr>"

definition getClusterRoleManifest ::
  "world \<Rightarrow> PolicyRule list \<Rightarrow> ManifestOptions \<Rightarrow> error + bytes" where
  "getClusterRoleManifest w rules opts = yaml_Marshal w (RoleObject (role rules opts))"

text \<open>
  The struct literal \<open>rolebinding\<close> of \<open>getClusterRoleBindingManifest\<close>. On a string,
  \<open>fmt.Sprintf\<close> with \<open>%s\<close> or \<open>%v\<close> inserts the string itself.
\<close>

definition rolebinding :: "ManifestOptions \<Rightarrow> ClusterRoleBinding" where
  "rolebinding opts =
     \<lparr> ClusterRoleBinding_TypeMeta =
         \<lparr> TypeMeta_Kind = ''ClusterRoleBinding'',
           TypeMeta_APIVersion = ''rbac.authorization.k8s.io/v1'' \<rparr>,
       ClusterRoleBinding_ObjectMeta =
         \<lparr> ObjectMeta_Name = Name opts @ ''-rolebinding'',
           ObjectMeta_Labels = Labels opts \<rparr>,
       Subjects =
         [\<lparr> Subject_Name = ''default'',
            Subject_Namespace = Name opts @ ''-system'',
            Subject_Kind = ''ServiceAccount'' \<rparr>],
       ClusterRoleBinding_RoleRef =
         \<lparr> RoleRef_Name = Name opts @ ''-role'',
           RoleRef_Kind = ''ClusterRole'',
           RoleRef_APIGroup = ''rbac.authorization.k8s.io'' \<rparr> \<rparr>"

definition getClusterRoleBindingManifest :: "world \<Rightarrow> ManifestOptions \<Rightarrow> error + bytes" where
  "getClusterRoleBindingManifest w opts = yaml_Marshal w (RoleBindingObject (rolebinding opts))"

subsection \<open>Generate\<close>

text \<open>The file mode \<open>0666\<close> of the source is octal: 438.\<close>

definition Generate :: "world \<Rightarrow> ManifestOptions \<Rightarrow> error option \<times> event list" where
  "Generate w opts =
     (case Validate w opts of
        (Some err, evs) \<Rightarrow> (Some err, evs)
      | (None, evs) \<Rightarrow>
     (case ParseDir w (InputDir opts) of
        Inl err \<Rightarrow>
          (Some (Error (''failed to parse the input dir '' @ Error_msg err)),
           evs @ [Scan (InputDir opts)])
      | Inr rules \<Rightarrow>
     if length rules = 0 then (None, evs @ [Scan (InputDir opts)])
     else
     (case getClusterRoleManifest w rules opts of
        Inl err \<Rightarrow>
          (Some (Error (''failed to generate role manifest '' @ Error_msg err)),
           evs @ [Scan (InputDir opts)])
      | Inr roleManifest \<Rightarrow>
     (case getClusterRoleBindingManifest w opts of
        Inl err \<Rightarrow>
          (Some (Error (''failed to generate role binding manifests '' @ Error_msg err)),
           evs @ [Scan (InputDir opts)])
      | Inr roleBindingManifest \<Rightarrow>
     (let roleManifestFile = filepath_Join w (OutputDir opts) ''rbac_role.yaml'' in
      case ioutil_WriteFile w roleManifestFile roleManifest 438 of
        Some err \<Rightarrow>
          (Some (Error (''failed to write role manifest YAML file '' @ Error_msg err)),
           evs @ [Scan (InputDir opts), WriteFile roleManifestFile roleManifest 438])
      | None \<Rightarrow>
     (let roleBindingManifestFile =
            filepath_Join w (OutputDir opts) ''rbac_role_binding.yaml'' in
      case ioutil_WriteFile w roleBindingManifestFile roleBindingManifest 438 of
        Some err \<Rightarrow>
          (Some (Error (''failed to write role manifest YAML file '' @ Error_msg err)),
           evs @ [Scan (InputDir opts), WriteFile roleManifestFile roleManifest 438,
                  WriteFile roleBindingManifestFile roleBindingManifest 438])
      | None \<Rightarrow>
          (None,
           evs @ [Scan (InputDir opts), WriteFile roleManifestFile roleManifest 438,
                  WriteFile roleBindingManifestFile roleBindingManifest 438])))))))"

subsection \<open>The properties the specification states about rule aggregation\<close>

text \<open>
  The specification groups rules by the tuple of their non-verb fields, each of them a set
  of strings. The fields are slices in the code; the tuple of a rule takes each field as
  the set of its elements, so that two rules share a tuple when they name the same API
  groups, resources, resource names and URLs, in whatever order.
\<close>

type_synonym rule_key = "string set \<times> string set \<times> string set \<times> string set"

definition rule_key :: "PolicyRule \<Rightarrow> rule_key" where
  "rule_key r =
     (set (APIGroups r), set (Resources r), set (ResourceNames r), set (NonResourceURLs r))"

text \<open>The union of the verbs of all the rules of \<open>rules\<close> that have the tuple \<open>k\<close>.\<close>

definition verbs_union :: "PolicyRule list \<Rightarrow> rule_key \<Rightarrow> string set" where
  "verbs_union rules k =
     \<Union> (set (map (\<lambda>r. set (Verbs r)) (filter (\<lambda>r. rule_key r = k) rules)))"

text \<open>
  Merge correctness, in the specification's words: \<open>output\<close> has exactly one rule for each
  tuple of \<open>input\<close>, and that rule's verbs are the union of the verbs \<open>input\<close> gives the
  tuple, none of them twice.
\<close>

definition merge_correct :: "PolicyRule list \<Rightarrow> PolicyRule list \<Rightarrow> bool" where
  "merge_correct input output \<longleftrightarrow>
     set (map rule_key output) = set (map rule_key input) \<and>
     distinct (map rule_key output) \<and>
     (\<forall>r \<in> set output. set (Verbs r) = verbs_union input (rule_key r) \<and> distinct (Verbs r))"

subsection \<open>Failure before the write step\<close>

text \<open>
  Some step before the two writes fails: the check of either directory, the scan, or,
  for a scan that found rules, the rendering of either manifest.
\<close>

definition upstream_failure :: "world \<Rightarrow> ManifestOptions \<Rightarrow> bool" where
  "upstream_failure w opts \<longleftrightarrow>
     os_Stat w (InputDir opts) \<noteq> None \<or>
     os_Stat w (OutputDir opts) \<noteq> None \<or>
     (case ParseDir w (InputDir opts) of
        Inl err \<Rightarrow> True
      | Inr rules \<Rightarrow>
          length rules \<noteq> 0 \<and>
          (isl (getClusterRoleManifest w rules opts) \<or>
           isl (getClusterRoleBindingManifest w opts)))"

subsection \<open>Sample inputs\<close>

text \<open>
  The two rules of the specification's scenario, the default options of the command
  (\<open>--name manager --input-dir ./pkg --output-dir ./config\<close>), and a world in which both
  directories exist, the scan finds the two rules and every write succeeds.
  \<open>sample_Marshal\<close> stands in for the YAML serializer when the model is run on these
  inputs; no general statement depends on it.
\<close>

definition pods_get :: PolicyRule where
  "pods_get = \<lparr> Verbs = [''get''], APIGroups = [''''], Resources = [''pods''],
                ResourceNames = [], NonResourceURLs = [] \<rparr>"

definition pods_list :: PolicyRule where
  "pods_list = \<lparr> Verbs = [''list''], APIGroups = [''''], Resources = [''pods''],
                 ResourceNames = [], NonResourceURLs = [] \<rparr>"

definition manager_opts :: ManifestOptions where
  "manager_opts = \<lparr> InputDir = ''./pkg'', OutputDir = ''./config'', Name = ''manager'',
                    Labels = Map.empty \<rparr>"

definition sample_Marshal :: "manifest_object \<Rightarrow> error + bytes" where
  "sample_Marshal obj =
     Inr (case obj of
            RoleObject r \<Rightarrow> ''role '' @ ObjectMeta_Name (ClusterRole_ObjectMeta r)
          | RoleBindingObject b \<Rightarrow>
              ''binding '' @ ObjectMeta_Name (ClusterRoleBinding_ObjectMeta b))"

definition sample_world :: world where
  "sample_world =
     \<lparr> os_Stat = (\<lambda>path. None),
       ParseDir = (\<lambda>dir. Inr [pods_get, pods_list]),
       yaml_Marshal = sample_Marshal,
       filepath_Join = (\<lambda>dir file. dir @ ''/'' @ file),
       ioutil_WriteFile = (\<lambda>path data perm. None) \<rparr>"

text \<open>
  Two more worlds: one without the input directory and one whose scan fails.
\<close>

definition missing_input_world :: world where
  "missing_input_world =
     sample_world\<lparr>os_Stat := (\<lambda>path. if path = ''./pkg''
                                then Some (Error ''stat ./pkg: no such file or directory'')
                                else None)\<rparr>"

definition scan_error_world :: world where
  "scan_error_world =
     sample_world\<lparr>ParseDir := (\<lambda>dir. Inl (Error ''a.go:3: bad annotation''))\<rparr>"

text \<open>
  \<open>listing_Marshal\<close> is a serializer that lists the rules of a role in their order, each
  with its resources and its verbs, after the role's name, so that the files a run writes
  show which rules the role holds. \<open>listing_world\<close> is \<open>sample_world\<close> with this
  serializer, and in \<open>swapped_world\<close> the scan finds the same two rules in the other
  order. \<open>pods_get_list\<close> is the one rule that the specification's scenario expects for
  the two: the same tuple, with the verbs \<open>get\<close> and \<open>list\<close>.
\<close>

definition commas :: "string list \<Rightarrow> string" where
  "commas ss = (case ss of [] \<Rightarrow> [] | s # rest \<Rightarrow> s @ concat (map (\<lambda>t. '','' @ t) rest))"

definition listing_rule :: "PolicyRule \<Rightarrow> string" where
  "listing_rule r = '' ['' @ commas (Resources r) @ '' '' @ commas (Verbs r) @ '']''"

definition listing_Marshal :: "manifest_object \<Rightarrow> error + bytes" where
  "listing_Marshal obj =
     Inr (case obj of
            RoleObject r \<Rightarrow>
              ObjectMeta_Name (ClusterRole_ObjectMeta r) @ '':''
              @ concat (map listing_rule (Rules r))
          | RoleBindingObject b \<Rightarrow> ObjectMeta_Name (ClusterRoleBinding_ObjectMeta b))"

definition listing_world :: world where
  "listing_world = sample_world\<lparr>yaml_Marshal := listing_Marshal\<rparr>"

definition swapped_world :: world where
  "swapped_world = listing_world\<lparr>ParseDir := (\<lambda>dir. Inr [pods_list, pods_get])\<rparr>"

definition pods_get_list :: PolicyRule where
  "pods_get_list = \<lparr> Verbs = [''get'', ''list''], APIGroups = [''''], Resources = [''pods''],
                     ResourceNames = [], NonResourceURLs = [] \<rparr>"

section \<open>Properties\<close>

subsection \<open>Auxiliary facts\<close>

lemma Rules_role: "Rules (role rules opts) = rules"
  by (simp add: role_def)

lemma Validate_ok:
  assumes "os_Stat w (InputDir opts) = None" "os_Stat w (OutputDir opts) = None"
  shows "Validate w opts = (None, [Stat (InputDir opts), Stat (OutputDir opts)])"
  using assms by (simp add: Validate_def)

lemma verbs_union_distinct:
  assumes "distinct (map rule_key rules)" "r \<in> set rules"
  shows "verbs_union rules (rule_key r) = set (Verbs r)"
proof -
  have "inj_on rule_key (set rules)"
    using assms(1) by (simp add: distinct_map)
  then have "{r' \<in> set rules. rule_key r' = rule_key r} = {r}"
    using assms(2) by (auto dest: inj_onD)
  then show ?thesis
    by (simp add: verbs_union_def)
qed

lemma merge_correct_self:
  "merge_correct rules rules \<longleftrightarrow>
     distinct (map rule_key rules) \<and> (\<forall>r \<in> set rules. distinct (Verbs r))"
  unfolding merge_correct_def using verbs_union_distinct by auto

lemma Validate_Name: "Validate w (opts\<lparr>Name := n\<rparr>) = Validate w opts"
  by (simp add: Validate_def split: option.splits)

lemma Validate_no_scan: "scans (snd (Validate w opts)) = []"
  by (simp add: Validate_def split: option.splits)

lemma Generate_Validate_fails:
  assumes "fst (Validate w opts) \<noteq> None"
  shows "Generate w opts = Validate w opts"
  using assms by (cases "Validate w opts") (auto simp: Generate_def)

lemma Generate_scans:
  assumes "fst (Validate w opts) = None"
  shows "scans (snd (Generate w opts)) = [InputDir opts]"
  using assms
  by (cases "Validate w opts")
     (auto simp: Generate_def Validate_def Let_def split: option.splits sum.splits)

lemma Generate_success:
  assumes "fst (Generate w opts) = None" "ParseDir w (InputDir opts) = Inr rules" "rules \<noteq> []"
  shows "\<exists>rm bm. getClusterRoleManifest w rules opts = Inr rm \<and>
           getClusterRoleBindingManifest w opts = Inr bm \<and>
           snd (Generate w opts) =
             [Stat (InputDir opts), Stat (OutputDir opts), Scan (InputDir opts),
              WriteFile (filepath_Join w (OutputDir opts) ''rbac_role.yaml'') rm 438,
              WriteFile (filepath_Join w (OutputDir opts) ''rbac_role_binding.yaml'') bm 438]"
  using assms
  by (auto simp: Generate_def Validate_def Let_def split: option.splits sum.splits)

lemma Generate_writes:
  assumes "fst (Generate w opts) = None" "ParseDir w (InputDir opts) = Inr rules" "rules \<noteq> []"
  shows "map fst (files_written (snd (Generate w opts))) =
           [filepath_Join w (OutputDir opts) ''rbac_role.yaml'',
            filepath_Join w (OutputDir opts) ''rbac_role_binding.yaml'']"
    and "map (Inr \<circ> snd) (files_written (snd (Generate w opts))) =
           [getClusterRoleManifest w rules opts, getClusterRoleBindingManifest w opts]"
proof -
  from Generate_success [OF assms] obtain rm bm where
    "getClusterRoleManifest w rules opts = Inr rm"
    "getClusterRoleBindingManifest w opts = Inr bm"
    "snd (Generate w opts) =
       [Stat (InputDir opts), Stat (OutputDir opts), Scan (InputDir opts),
        WriteFile (filepath_Join w (OutputDir opts) ''rbac_role.yaml'') rm 438,
        WriteFile (filepath_Join w (OutputDir opts) ''rbac_role_binding.yaml'') bm 438]"
    by blast
  then show
    "map fst (files_written (snd (Generate w opts))) =
       [filepath_Join w (OutputDir opts) ''rbac_role.yaml'',
        filepath_Join w (OutputDir opts) ''rbac_role_binding.yaml'']"
    "map (Inr \<circ> snd) (files_written (snd (Generate w opts))) =
       [getClusterRoleManifest w rules opts, getClusterRoleBindingManifest w opts]"
    by simp_all
qed

lemma role_eq_iff: "role rules' opts = role rules opts \<longleftrightarrow> rules' = rules"
  by (simp add: role_def)

lemma Generate_listing:
  "Generate listing_world manager_opts =
     (None,
      [Stat ''./pkg'', Stat ''./config'', Scan ''./pkg'',
       WriteFile ''./config/rbac_role.yaml'' ''manager-role: [pods get] [pods list]'' 438,
       WriteFile ''./config/rbac_role_binding.yaml'' ''manager-rolebinding'' 438])"
  by (simp add: Generate_def Validate_def getClusterRoleManifest_def
      getClusterRoleBindingManifest_def role_def rolebinding_def listing_world_def
      sample_world_def listing_Marshal_def listing_rule_def commas_def manager_opts_def
      pods_get_def pods_list_def)

lemma Generate_swapped:
  "Generate swapped_world manager_opts =
     (None,
      [Stat ''./pkg'', Stat ''./config'', Scan ''./pkg'',
       WriteFile ''./config/rbac_role.yaml'' ''manager-role: [pods list] [pods get]'' 438,
       WriteFile ''./config/rbac_role_binding.yaml'' ''manager-rolebinding'' 438])"
  by (simp add: Generate_def Validate_def getClusterRoleManifest_def
      getClusterRoleBindingManifest_def role_def rolebinding_def swapped_world_def
      listing_world_def sample_world_def listing_Marshal_def listing_rule_def commas_def
      manager_opts_def pods_get_def pods_list_def)

subsection \<open>Rule aggregation\<close>

text \<open>
  Claim C1, as the specification states it: the rules of the role that a run generates
  are the scanned rules merged, one rule for each tuple of non-verb fields, with the
  union of the verbs. In \<open>listing_world\<close> the scan returns the two rules of the
  specification's scenario, which share their tuple. The run succeeds and the role file
  it writes lists both rules, each with its one verb; the scanned rules themselves do
  not have the merge property. The role of the one merged rule \<open>pods_get_list\<close>, which
  has the merge property, is rendered differently.
\<close>

theorem Generate_merge_counterexample:
  "ParseDir listing_world (InputDir manager_opts) = Inr [pods_get, pods_list] \<and>
   rule_key pods_get = rule_key pods_list \<and>
   Generate listing_world manager_opts =
     (None,
      [Stat ''./pkg'', Stat ''./config'', Scan ''./pkg'',
       WriteFile ''./config/rbac_role.yaml'' ''manager-role: [pods get] [pods list]'' 438,
       WriteFile ''./config/rbac_role_binding.yaml'' ''manager-rolebinding'' 438]) \<and>
   \<not> merge_correct [pods_get, pods_list] [pods_get, pods_list] \<and>
   merge_correct [pods_get, pods_list] [pods_get_list] \<and>
   getClusterRoleManifest listing_world [pods_get_list] manager_opts =
     Inr ''manager-role: [pods get,list]''"
proof (intro conjI)
  show "ParseDir listing_world (InputDir manager_opts) = Inr [pods_get, pods_list]"
    by (simp add: listing_world_def sample_world_def)
  show "rule_key pods_get = rule_key pods_list"
    by (simp add: rule_key_def pods_get_def pods_list_def)
  show "Generate listing_world manager_opts =
     (None,
      [Stat ''./pkg'', Stat ''./config'', Scan ''./pkg'',
       WriteFile ''./config/rbac_role.yaml'' ''manager-role: [pods get] [pods list]'' 438,
       WriteFile ''./config/rbac_role_binding.yaml'' ''manager-rolebinding'' 438])"
    by (rule Generate_listing)
  show "\<not> merge_correct [pods_get, pods_list] [pods_get, pods_list]"
    by (simp add: merge_correct_def rule_key_def pods_get_def pods_list_def)
  show "merge_correct [pods_get, pods_list] [pods_get_list]"
    by (auto simp: merge_correct_def verbs_union_def rule_key_def pods_get_def pods_list_def
        pods_get_list_def)
  show "getClusterRoleManifest listing_world [pods_get_list] manager_opts =
          Inr ''manager-role: [pods get,list]''"
    by (simp add: getClusterRoleManifest_def role_def listing_world_def sample_world_def
        listing_Marshal_def listing_rule_def commas_def manager_opts_def pods_get_list_def)
qed

text \<open>
  Claim C1, amended: nothing is merged between the scan and the role. A successful run
  on a non-empty scan result writes two files, the first the serialization of the role
  whose rule list is the scan result as returned: one rule of the role for each scanned
  rule, with that rule's own verbs. The role has the merge property exactly when the
  scanned rules already have pairwise different tuples and no rule lists a verb twice.
\<close>

theorem Generate_role_rules_unmerged:
  assumes "fst (Generate w opts) = None"
    and "ParseDir w (InputDir opts) = Inr rules" and "rules \<noteq> []"
  shows "map fst (files_written (snd (Generate w opts))) =
           [filepath_Join w (OutputDir opts) ''rbac_role.yaml'',
            filepath_Join w (OutputDir opts) ''rbac_role_binding.yaml''] \<and>
         map (Inr \<circ> snd) (files_written (snd (Generate w opts))) =
           [yaml_Marshal w (RoleObject (role rules opts)),
            yaml_Marshal w (RoleBindingObject (rolebinding opts))] \<and>
         Rules (role rules opts) = rules \<and>
         (merge_correct rules (Rules (role rules opts)) \<longleftrightarrow>
            distinct (map rule_key rules) \<and> (\<forall>r \<in> set rules. distinct (Verbs r)))"
  using Generate_writes [OF assms]
  by (simp add: getClusterRoleManifest_def getClusterRoleBindingManifest_def Rules_role
      merge_correct_self)

theorem Generate_role_rules_unmerged_witness:
  "map (Inr \<circ> snd) (files_written (snd (Generate listing_world manager_opts))) =
     [yaml_Marshal listing_world (RoleObject (role [pods_get, pods_list] manager_opts)),
      yaml_Marshal listing_world (RoleBindingObject (rolebinding manager_opts))] \<and>
   yaml_Marshal listing_world (RoleObject (role [pods_get, pods_list] manager_opts)) =
     Inr ''manager-role: [pods get] [pods list]''"
proof -
  have "fst (Generate listing_world manager_opts) = None"
    by (simp add: Generate_listing)
  moreover have "ParseDir listing_world (InputDir manager_opts) = Inr [pods_get, pods_list]"
    by (simp add: listing_world_def sample_world_def)
  moreover have "[pods_get, pods_list] \<noteq> []"
    by simp
  ultimately have
    "map (Inr \<circ> snd) (files_written (snd (Generate listing_world manager_opts))) =
       [yaml_Marshal listing_world (RoleObject (role [pods_get, pods_list] manager_opts)),
        yaml_Marshal listing_world (RoleBindingObject (rolebinding manager_opts))]"
    using Generate_role_rules_unmerged
      [of listing_world manager_opts "[pods_get, pods_list]"]
    by blast
  then show ?thesis
    by (simp add: Generate_listing)
qed

text \<open>
  Claim C2, as the specification states it: runs whose scans return the same rules in
  different orders generate the same rule sequence. In \<open>listing_world\<close> and
  \<open>swapped_world\<close> the scan returns the two rules of the scenario in the two orders;
  both runs succeed, and the two role files list the rules in different orders.
\<close>

theorem Generate_order_counterexample:
  "ParseDir listing_world (InputDir manager_opts) = Inr [pods_get, pods_list] \<and>
   ParseDir swapped_world (InputDir manager_opts) = Inr [pods_list, pods_get] \<and>
   mset [pods_list, pods_get] = mset [pods_get, pods_list] \<and>
   yaml_Marshal swapped_world = yaml_Marshal listing_world \<and>
   files_written (snd (Generate listing_world manager_opts)) =
     [(''./config/rbac_role.yaml'', ''manager-role: [pods get] [pods list]''),
      (''./config/rbac_role_binding.yaml'', ''manager-rolebinding'')] \<and>
   files_written (snd (Generate swapped_world manager_opts)) =
     [(''./config/rbac_role.yaml'', ''manager-role: [pods list] [pods get]''),
      (''./config/rbac_role_binding.yaml'', ''manager-rolebinding'')] \<and>
   files_written (snd (Generate swapped_world manager_opts)) \<noteq>
   files_written (snd (Generate listing_world manager_opts))"
proof -
  have "ParseDir listing_world (InputDir manager_opts) = Inr [pods_get, pods_list]"
    by (simp add: listing_world_def sample_world_def)
  moreover have "ParseDir swapped_world (InputDir manager_opts) = Inr [pods_list, pods_get]"
    by (simp add: swapped_world_def)
  moreover have "yaml_Marshal swapped_world = yaml_Marshal listing_world"
    by (simp add: swapped_world_def)
  ultimately show ?thesis
    by (simp add: Generate_listing Generate_swapped)
qed

text \<open>
  Claim C2, amended: nothing is sorted between the scan and the role, so the order of the
  role's rules is the order of the scan result. Each of two successful runs writes the
  serialization of the role whose rule sequence is that run's scan result as returned.
  When the two scan results are permutations of each other, the two roles hold the same
  rules as a multiset, and they are the same role only when the two scan results are the
  same sequence.
\<close>

theorem Generate_role_rules_scan_order:
  assumes "fst (Generate w opts) = None" and "ParseDir w (InputDir opts) = Inr rules"
    and "fst (Generate w' opts) = None" and "ParseDir w' (InputDir opts) = Inr rules'"
    and "rules \<noteq> []" and "mset rules' = mset rules"
  shows "map (Inr \<circ> snd) (files_written (snd (Generate w opts))) =
           [yaml_Marshal w (RoleObject (role rules opts)),
            yaml_Marshal w (RoleBindingObject (rolebinding opts))] \<and>
         map (Inr \<circ> snd) (files_written (snd (Generate w' opts))) =
           [yaml_Marshal w' (RoleObject (role rules' opts)),
            yaml_Marshal w' (RoleBindingObject (rolebinding opts))] \<and>
         Rules (role rules opts) = rules \<and> Rules (role rules' opts) = rules' \<and>
         mset (Rules (role rules' opts)) = mset (Rules (role rules opts)) \<and>
         (role rules' opts = role rules opts \<longleftrightarrow> rules' = rules)"
proof -
  have "rules' \<noteq> []"
    using assms(5,6) by auto
  from Generate_writes(2) [OF assms(1,2,5)] Generate_writes(2) [OF assms(3,4) this] assms(6)
  show ?thesis
    by (simp add: getClusterRoleManifest_def getClusterRoleBindingManifest_def Rules_role
        role_eq_iff)
qed

theorem Generate_role_rules_scan_order_witness:
  "map (Inr \<circ> snd) (files_written (snd (Generate swapped_world manager_opts))) =
     [yaml_Marshal swapped_world (RoleObject (role [pods_list, pods_get] manager_opts)),
      yaml_Marshal swapped_world (RoleBindingObject (rolebinding manager_opts))] \<and>
   role [pods_list, pods_get] manager_opts \<noteq> role [pods_get, pods_list] manager_opts"
proof -
  have "fst (Generate listing_world manager_opts) = None"
    by (simp add: Generate_listing)
  moreover have "ParseDir listing_world (InputDir manager_opts) = Inr [pods_get, pods_list]"
    by (simp add: listing_world_def sample_world_def)
  moreover have "fst (Generate swapped_world manager_opts) = None"
    by (simp add: Generate_swapped)
  moreover have "ParseDir swapped_world (InputDir manager_opts) = Inr [pods_list, pods_get]"
    by (simp add: swapped_world_def)
  moreover have "[pods_get, pods_list] \<noteq> []"
    by simp
  moreover have "mset [pods_list, pods_get] = mset [pods_get, pods_list]"
    by simp
  moreover have "[pods_list, pods_get] \<noteq> [pods_get, pods_list]"
    by (simp add: pods_get_def pods_list_def)
  ultimately show ?thesis
    using Generate_role_rules_scan_order
      [of listing_world manager_opts "[pods_get, pods_list]" swapped_world
          "[pods_list, pods_get]"]
    by blast
qed

subsection \<open>Names\<close>

text \<open>
  Claim C3: for a non-empty name \<open>N\<close>, the role is named \<open>N-role\<close>, the binding
  \<open>N-rolebinding\<close>, the binding refers to the role by the role's name, and its subject is
  the service account \<open>default\<close> in the namespace \<open>N-system\<close>.
\<close>

theorem manifest_names:
  assumes "Name opts \<noteq> []"
  shows "ObjectMeta_Name (ClusterRole_ObjectMeta (role rules opts)) = Name opts @ ''-role'' \<and>
         ObjectMeta_Name (ClusterRoleBinding_ObjectMeta (rolebinding opts)) =
           Name opts @ ''-rolebinding'' \<and>
         RoleRef_Name (ClusterRoleBinding_RoleRef (rolebinding opts)) =
           ObjectMeta_Name (ClusterRole_ObjectMeta (role rules opts)) \<and>
         map Subject_Namespace (Subjects (rolebinding opts)) = [Name opts @ ''-system''] \<and>
         map Subject_Name (Subjects (rolebinding opts)) = [''default'']"
  by (simp add: role_def rolebinding_def)

theorem manifest_names_witness:
  "Name manager_opts \<noteq> [] \<and>
   ObjectMeta_Name (ClusterRole_ObjectMeta (role [pods_get, pods_list] manager_opts)) =
     ''manager-role'' \<and>
   ObjectMeta_Name (ClusterRoleBinding_ObjectMeta (rolebinding manager_opts)) =
     ''manager-rolebinding'' \<and>
   RoleRef_Name (ClusterRoleBinding_RoleRef (rolebinding manager_opts)) = ''manager-role'' \<and>
   map Subject_Namespace (Subjects (rolebinding manager_opts)) = [''manager-system''] \<and>
   map Subject_Name (Subjects (rolebinding manager_opts)) = [''default'']"
proof -
  have n: "Name manager_opts = ''manager''"
    by (simp add: manager_opts_def)
  then have "Name manager_opts \<noteq> []"
    by simp
  from manifest_names [OF this, of "[pods_get, pods_list]"] n show ?thesis
    by simp
qed

subsection \<open>Runs of Generate\<close>

text \<open>
  Claim C4: when both directories pass validation and the scan returns no rule, the run
  succeeds and writes no file: its only events are the two checks and the scan.
\<close>

theorem Generate_no_rules:
  assumes "os_Stat w (InputDir opts) = None" "os_Stat w (OutputDir opts) = None"
    and "ParseDir w (InputDir opts) = Inr []"
  shows "Generate w opts =
           (None, [Stat (InputDir opts), Stat (OutputDir opts), Scan (InputDir opts)]) \<and>
         files_written (snd (Generate w opts)) = []"
  using assms by (simp add: Generate_def Validate_ok)

theorem Generate_no_rules_witness:
  "Generate (sample_world\<lparr>ParseDir := \<lambda>dir. Inr []\<rparr>) manager_opts =
     (None, [Stat ''./pkg'', Stat ''./config'', Scan ''./pkg'']) \<and>
   files_written (snd (Generate (sample_world\<lparr>ParseDir := \<lambda>dir. Inr []\<rparr>) manager_opts)) = []"
  using Generate_no_rules [of "sample_world\<lparr>ParseDir := \<lambda>dir. Inr []\<rparr>" manager_opts]
  by (simp add: sample_world_def manager_opts_def)

text \<open>
  Claim C5, as the specification states it: an empty name makes generation fail at
  validation, before the scan. In the sample world the run with the empty name passes
  validation, scans, and writes both files, under the names \<open>-role\<close> and \<open>-rolebinding\<close>.
\<close>

theorem Generate_empty_name_counterexample:
  "Name (manager_opts\<lparr>Name := ''''\<rparr>) = '''' \<and>
   Generate sample_world (manager_opts\<lparr>Name := ''''\<rparr>) =
     (None,
      [Stat ''./pkg'', Stat ''./config'', Scan ''./pkg'',
       WriteFile ''./config/rbac_role.yaml'' ''role -role'' 438,
       WriteFile ''./config/rbac_role_binding.yaml'' ''binding -rolebinding'' 438])"
  by (simp add: Generate_def Validate_def getClusterRoleManifest_def
      getClusterRoleBindingManifest_def role_def rolebinding_def sample_world_def
      sample_Marshal_def manager_opts_def pods_get_def pods_list_def)

text \<open>
  Claim C5, amended: an empty name is not rejected. \<open>Validate\<close> checks the two directories
  only, so its outcome is the same for every name; with the empty name and both
  directories present it succeeds, the run goes on to the scan, and the manifests are
  named \<open>-role\<close> and \<open>-rolebinding\<close>, with the namespace \<open>-system\<close>.
\<close>

theorem empty_name_not_rejected:
  assumes "Name opts = []"
    and "os_Stat w (InputDir opts) = None" "os_Stat w (OutputDir opts) = None"
  shows "Validate w opts = (None, [Stat (InputDir opts), Stat (OutputDir opts)]) \<and>
         Validate w (opts\<lparr>Name := n\<rparr>) = Validate w opts \<and>
         scans (snd (Generate w opts)) = [InputDir opts] \<and>
         ObjectMeta_Name (ClusterRole_ObjectMeta (role rules opts)) = ''-role'' \<and>
         ObjectMeta_Name (ClusterRoleBinding_ObjectMeta (rolebinding opts)) = ''-rolebinding'' \<and>
         map Subject_Namespace (Subjects (rolebinding opts)) = [''-system'']"
proof -
  have v: "Validate w opts = (None, [Stat (InputDir opts), Stat (OutputDir opts)])"
    using assms(2,3) by (rule Validate_ok)
  then have "scans (snd (Generate w opts)) = [InputDir opts]"
    by (simp add: Generate_scans)
  with v assms(1) show ?thesis
    by (simp add: Validate_Name role_def rolebinding_def)
qed

theorem empty_name_not_rejected_witness:
  "Validate sample_world (manager_opts\<lparr>Name := ''''\<rparr>) =
     (None, [Stat ''./pkg'', Stat ''./config'']) \<and>
   scans (snd (Generate sample_world (manager_opts\<lparr>Name := ''''\<rparr>))) = [''./pkg'']"
  using empty_name_not_rejected [of "manager_opts\<lparr>Name := ''''\<rparr>" sample_world]
  by (simp add: sample_world_def manager_opts_def)

text \<open>
  Claim C6: when a step before the writes fails, the run returns an error and writes no
  file. A failed validation is returned as it is and nothing is scanned; in particular a
  missing input directory gives the error \<open>invalid input directory\<close> after the one check
  of that directory. A failed scan or rendering is returned under a prefix that names the
  step.
\<close>

theorem upstream_failure_no_write:
  assumes "upstream_failure w opts"
  shows "fst (Generate w opts) \<noteq> None \<and>
         files_written (snd (Generate w opts)) = [] \<and>
         (fst (Validate w opts) \<noteq> None \<longrightarrow>
            Generate w opts = Validate w opts \<and> scans (snd (Generate w opts)) = []) \<and>
         (\<forall>err. os_Stat w (InputDir opts) = Some err \<longrightarrow>
            Generate w opts =
              (Some (Error (''invalid input directory '' @ [CHR 0x27] @ InputDir opts
                            @ [CHR 0x27] @ '' '' @ Error_msg err)),
               [Stat (InputDir opts)])) \<and>
         (\<forall>err. fst (Validate w opts) = None \<and> ParseDir w (InputDir opts) = Inl err \<longrightarrow>
            fst (Generate w opts) =
              Some (Error (''failed to parse the input dir '' @ Error_msg err))) \<and>
         (\<forall>rules err. fst (Validate w opts) = None \<and> ParseDir w (InputDir opts) = Inr rules \<and>
            length rules \<noteq> 0 \<and> getClusterRoleManifest w rules opts = Inl err \<longrightarrow>
            fst (Generate w opts) =
              Some (Error (''failed to generate role manifest '' @ Error_msg err))) \<and>
         (\<forall>rules err. fst (Validate w opts) = None \<and> ParseDir w (InputDir opts) = Inr rules \<and>
            length rules \<noteq> 0 \<and> \<not> isl (getClusterRoleManifest w rules opts) \<and>
            getClusterRoleBindingManifest w opts = Inl err \<longrightarrow>
            fst (Generate w opts) =
              Some (Error (''failed to generate role binding manifests '' @ Error_msg err)))"
proof (intro conjI)
  show "fst (Generate w opts) \<noteq> None"
    using assms
    by (auto simp: upstream_failure_def Generate_def Validate_def Let_def isl_def
        split: option.splits sum.splits)
  show "files_written (snd (Generate w opts)) = []"
    using assms
    by (auto simp: upstream_failure_def Generate_def Validate_def Let_def isl_def
        split: option.splits sum.splits)
  show "fst (Validate w opts) \<noteq> None \<longrightarrow>
          Generate w opts = Validate w opts \<and> scans (snd (Generate w opts)) = []"
    by (simp add: Generate_Validate_fails Validate_no_scan)
  show "\<forall>err. os_Stat w (InputDir opts) = Some err \<longrightarrow>
          Generate w opts =
            (Some (Error (''invalid input directory '' @ [CHR 0x27] @ InputDir opts
                          @ [CHR 0x27] @ '' '' @ Error_msg err)),
             [Stat (InputDir opts)])"
    by (simp add: Generate_def Validate_def)
  show "\<forall>err. fst (Validate w opts) = None \<and> ParseDir w (InputDir opts) = Inl err \<longrightarrow>
          fst (Generate w opts) =
            Some (Error (''failed to parse the input dir '' @ Error_msg err))"
    by (cases "Validate w opts") (auto simp: Generate_def)
  show "\<forall>rules err. fst (Validate w opts) = None \<and> ParseDir w (InputDir opts) = Inr rules \<and>
          length rules \<noteq> 0 \<and> getClusterRoleManifest w rules opts = Inl err \<longrightarrow>
          fst (Generate w opts) =
            Some (Error (''failed to generate role manifest '' @ Error_msg err))"
    by (cases "Validate w opts") (auto simp: Generate_def)
  show "\<forall>rules err. fst (Validate w opts) = None \<and> ParseDir w (InputDir opts) = Inr rules \<and>
          length rules \<noteq> 0 \<and> \<not> isl (getClusterRoleManifest w rules opts) \<and>
          getClusterRoleBindingManifest w opts = Inl err \<longrightarrow>
          fst (Generate w opts) =
            Some (Error (''failed to generate role binding manifests '' @ Error_msg err))"
    by (cases "Validate w opts") (auto simp: Generate_def isl_def split: sum.splits)
qed

theorem upstream_failure_no_write_witness:
  "upstream_failure missing_input_world manager_opts \<and>
   Generate missing_input_world manager_opts =
     (Some (Error (''invalid input directory '' @ [CHR 0x27] @ ''./pkg'' @ [CHR 0x27]
                   @ '' stat ./pkg: no such file or directory'')),
      [Stat ''./pkg'']) \<and>
   files_written (snd (Generate missing_input_world manager_opts)) = [] \<and>
   upstream_failure scan_error_world manager_opts \<and>
   fst (Generate scan_error_world manager_opts) =
     Some (Error ''failed to parse the input dir a.go:3: bad annotation'') \<and>
   files_written (snd (Generate scan_error_world manager_opts)) = []"
proof -
  have s: "os_Stat missing_input_world (InputDir manager_opts) =
             Some (Error ''stat ./pkg: no such file or directory'')"
    by (simp add: missing_input_world_def manager_opts_def)
  then have u: "upstream_failure missing_input_world manager_opts"
    by (simp add: upstream_failure_def)
  have p: "ParseDir scan_error_world (InputDir manager_opts) =
             Inl (Error ''a.go:3: bad annotation'')"
    by (simp add: scan_error_world_def)
  then have u': "upstream_failure scan_error_world manager_opts"
    by (simp add: upstream_failure_def)
  have v: "fst (Validate scan_error_world manager_opts) = None"
    by (simp add: Validate_def scan_error_world_def sample_world_def)
  from upstream_failure_no_write [OF u] s u
  have a: "Generate missing_input_world manager_opts =
     (Some (Error (''invalid input directory '' @ [CHR 0x27] @ ''./pkg'' @ [CHR 0x27]
                   @ '' stat ./pkg: no such file or directory'')),
      [Stat ''./pkg''])"
    "files_written (snd (Generate missing_input_world manager_opts)) = []"
    by (simp_all add: manager_opts_def)
  from upstream_failure_no_write [OF u'] p v
  have b: "fst (Generate scan_error_world manager_opts) =
     Some (Error ''failed to parse the input dir a.go:3: bad annotation'')"
    "files_written (snd (Generate scan_error_world manager_opts)) = []"
    by simp_all
  from a b u u' show ?thesis
    by simp
qed

subsection \<open>The contents of the two manifests\<close>

text \<open>
  Claim C7: the role holds the rule list it is given, unchanged, and the labels of the
  options, unchanged; this role is what \<open>getClusterRoleManifest\<close> serializes.
\<close>

theorem role_rules_labels_verbatim:
  "Rules (role rules opts) = rules \<and>
   ObjectMeta_Labels (ClusterRole_ObjectMeta (role rules opts)) = Labels opts \<and>
   getClusterRoleManifest w rules opts = yaml_Marshal w (RoleObject (role rules opts))"
  by (simp add: role_def getClusterRoleManifest_def)

text \<open>
  Claim C8: whatever the rules and the options, what \<open>getClusterRoleManifest\<close> renders is
  a role marked \<open>ClusterRole\<close> and what \<open>getClusterRoleBindingManifest\<close> renders is a
  binding marked \<open>ClusterRoleBinding\<close>, both of \<open>rbac.authorization.k8s.io/v1\<close>, and the two
  markers differ.
\<close>

theorem manifest_type_markers:
  "getClusterRoleManifest w rules opts = yaml_Marshal w (RoleObject (role rules opts)) \<and>
   ClusterRole_TypeMeta (role rules opts) =
     \<lparr> TypeMeta_Kind = ''ClusterRole'',
       TypeMeta_APIVersion = ''rbac.authorization.k8s.io/v1'' \<rparr> \<and>
   getClusterRoleBindingManifest w opts' =
     yaml_Marshal w (RoleBindingObject (rolebinding opts')) \<and>
   ClusterRoleBinding_TypeMeta (rolebinding opts') =
     \<lparr> TypeMeta_Kind = ''ClusterRoleBinding'',
       TypeMeta_APIVersion = ''rbac.authorization.k8s.io/v1'' \<rparr> \<and>
   ClusterRole_TypeMeta (role rules opts) \<noteq> ClusterRoleBinding_TypeMeta (rolebinding opts')"
  by (simp add: role_def rolebinding_def getClusterRoleManifest_def
      getClusterRoleBindingManifest_def)

text \<open>
  Claim C10: the binding has exactly one subject, the service account \<open>default\<close>, and its
  role reference has the API group \<open>rbac.authorization.k8s.io\<close>.
\<close>

theorem rolebinding_subject_roleRef:
  "Subjects (rolebinding opts) =
     [\<lparr> Subject_Name = ''default'', Subject_Namespace = Name opts @ ''-system'',
        Subject_Kind = ''ServiceAccount'' \<rparr>] \<and>
   length (Subjects (rolebinding opts)) = 1 \<and>
   RoleRef_APIGroup (ClusterRoleBinding_RoleRef (rolebinding opts)) =
     ''rbac.authorization.k8s.io''"
  by (simp add: rolebinding_def)

end
